theory Spec2Isabelle
  imports Complex_Main "HOL-Library.Word"
begin

section \<open>JavaScript values used by the domain model\<close>

subsection \<open>Strings\<close>

text \<open>
  A TypeScript string is a sequence of UTF-16 code units. The branded identifier types
  (\<open>FrameworkId\<close>, \<open>ControlId\<close>, \<open>EvidenceId\<close>, \<open>RiskId\<close>, \<open>UserId\<close>,
  \<open>IntegrationId\<close>, \<open>Url\<close>) are plain strings at run time.
\<close>

type_synonym js_string = "16 word list"

type_synonym FrameworkId = js_string
type_synonym ControlId = js_string
type_synonym EvidenceId = js_string
type_synonym RiskId = js_string
type_synonym UserId = js_string
type_synonym IntegrationId = js_string
type_synonym Url = js_string

text \<open>An ASCII literal as a JavaScript string.\<close>

definition utf16 :: "string \<Rightarrow> js_string" where
  "utf16 s = map (\<lambda>c. of_nat (of_char c)) s"

text \<open>
  The code units that \<open>String.prototype.trim\<close> strips: ECMAScript WhiteSpace (TAB, VT, FF,
  SP, NBSP, ZWNBSP and the Unicode space separators) and LineTerminator (LF, CR, LS, PS).
\<close>

definition isWhiteSpace :: "16 word \<Rightarrow> bool" where
  "isWhiteSpace c = (c \<in> set [0x0009, 0x000A, 0x000B, 0x000C, 0x000D, 0x0020, 0x00A0,
      0x1680, 0x2000, 0x2001, 0x2002, 0x2003, 0x2004, 0x2005, 0x2006, 0x2007, 0x2008,
      0x2009, 0x200A, 0x2028, 0x2029, 0x202F, 0x205F, 0x3000, 0xFEFF])"

definition trim :: "js_string \<Rightarrow> js_string" where
  "trim s = rev (dropWhile isWhiteSpace (rev (dropWhile isWhiteSpace s)))"

subsection \<open>Numbers\<close>

text \<open>
  A TypeScript \<open>number\<close> is an IEEE double: NaN, an infinity, or a finite value. The model
  only compares numbers, and comparison of finite doubles is comparison of the reals they
  denote, so a finite number is given by its real value.
\<close>

datatype js_number = NaN | PosInf | NegInf | Finite real

text \<open>The relational operator \<open><\<close>: false as soon as one side is NaN.\<close>

fun js_lt :: "js_number \<Rightarrow> js_number \<Rightarrow> bool" where
  "js_lt NaN _ = False"
| "js_lt _ NaN = False"
| "js_lt PosInf _ = False"
| "js_lt _ NegInf = False"
| "js_lt NegInf _ = True"
| "js_lt (Finite a) PosInf = True"
| "js_lt (Finite a) (Finite b) = (a < b)"

definition js_gt :: "js_number \<Rightarrow> js_number \<Rightarrow> bool" where
  "js_gt a b = js_lt b a"

subsection \<open>Dates\<close>

text \<open>
  A \<open>Date\<close> holds a time value: an integral number of milliseconds since the epoch, or NaN
  (an invalid date). The relational operators compare the time values, so every comparison
  with an invalid date is false. \<open>new Date()\<close> reads the ambient clock; the model takes
  each reading \<open>now\<close> (milliseconds) as an explicit argument, and \<open>newDate now\<close> is the
  object it returns.
\<close>

datatype Date = InvalidDate | DateAt int

definition newDate :: "int \<Rightarrow> Date" where
  "newDate now = DateAt now"

fun date_lt :: "Date \<Rightarrow> Date \<Rightarrow> bool" where
  "date_lt (DateAt a) (DateAt b) = (a < b)"
| "date_lt _ _ = False"

fun date_le :: "Date \<Rightarrow> Date \<Rightarrow> bool" where
  "date_le (DateAt a) (DateAt b) = (a \<le> b)"
| "date_le _ _ = False"

definition date_gt :: "Date \<Rightarrow> Date \<Rightarrow> bool" where
  "date_gt a b = date_lt b a"

section \<open>shared/result.ts\<close>

datatype ('t, 'e) Result = Ok 't | Err 'e

text \<open>The texts of a validation error are ASCII literals of the source.\<close>

record ValidationError =
  field :: string
  message :: string
  code :: string

definition validationError :: "string \<Rightarrow> string \<Rightarrow> string \<Rightarrow> ValidationError" where
  "validationError f m c = \<lparr>field = f, message = m, code = c\<rparr>"

section \<open>shared/value-objects.ts\<close>

text \<open>
  In the guard \<open>!value || value.trim().length === 0\<close>, \<open>!value\<close> holds of the empty
  string only: it is the one falsy string.
\<close>

definition createId :: "js_string \<Rightarrow> string \<Rightarrow> (js_string, ValidationError) Result" where
  "createId v typeName =
     (if v = [] \<or> length (trim v) = 0
      then Err (validationError ''id'' (typeName @ '' cannot be empty'') ''EMPTY_ID'')
      else Ok v)"

definition frameworkId :: "js_string \<Rightarrow> (FrameworkId, ValidationError) Result" where
  "frameworkId v = createId v ''FrameworkId''"

definition controlId :: "js_string \<Rightarrow> (ControlId, ValidationError) Result" where
  "controlId v = createId v ''ControlId''"

definition evidenceId :: "js_string \<Rightarrow> (EvidenceId, ValidationError) Result" where
  "evidenceId v = createId v ''EvidenceId''"

definition riskId :: "js_string \<Rightarrow> (RiskId, ValidationError) Result" where
  "riskId v = createId v ''RiskId''"

definition userId :: "js_string \<Rightarrow> (UserId, ValidationError) Result" where
  "userId v = createId v ''UserId''"

definition integrationId :: "js_string \<Rightarrow> (IntegrationId, ValidationError) Result" where
  "integrationId v = createId v ''IntegrationId''"

text \<open>\<open>Percentage\<close> is a branded \<open>number\<close>.\<close>

type_synonym Percentage = js_number

definition percentage :: "js_number \<Rightarrow> (Percentage, ValidationError) Result" where
  "percentage v =
     (if js_lt v (Finite 0) \<or> js_gt v (Finite 100)
      then Err (validationError ''percentage'' ''Percentage must be between 0 and 100''
                  ''INVALID_PERCENTAGE'')
      else Ok v)"

section \<open>domain/risk.ts\<close>

datatype RiskLevel = Low | Medium | High | Critical

fun riskLevelValue :: "RiskLevel \<Rightarrow> int" where
  "riskLevelValue Low = 1"
| "riskLevelValue Medium = 2"
| "riskLevelValue High = 3"
| "riskLevelValue Critical = 4"

text \<open>
  The field \<open>value\<close> of the source is written \<open>value'\<close>. \<open>riskLabel\<close> is the conditional
  expression that \<open>calculateRiskScore\<close> binds to \<open>label\<close>, as a function of \<open>value\<close>.
\<close>

record RiskScore =
  likelihood :: RiskLevel
  impact :: RiskLevel
  value' :: int
  label :: string

definition riskLabel :: "int \<Rightarrow> string" where
  "riskLabel v =
     (if v \<le> 2 then ''Low'' else if v \<le> 6 then ''Medium''
      else if v \<le> 12 then ''High'' else ''Critical'')"

definition calculateRiskScore :: "RiskLevel \<Rightarrow> RiskLevel \<Rightarrow> RiskScore" where
  "calculateRiskScore l i =
     (let v = riskLevelValue l * riskLevelValue i
      in \<lparr>likelihood = l, impact = i, value' = v, label = riskLabel v\<rparr>)"

datatype RiskCategory = Operational | Technical | Compliance | Financial

datatype RiskStatus =
    Identified Date
  | Assessed Date UserId
  | Mitigated Date "ControlId list"
  | Accepted UserId js_string Date
  | Closed Date js_string

record Risk =
  id :: RiskId
  title :: js_string
  description :: js_string
  category :: RiskCategory
  inherentScore :: RiskScore
  residualScore :: RiskScore
  status :: RiskStatus
  ownerId :: UserId

record CreateRiskInput =
  id :: js_string
  title :: js_string
  description :: js_string
  category :: RiskCategory
  likelihood :: RiskLevel
  impact :: RiskLevel
  ownerId :: UserId

text \<open>
  The errors are pushed in the order of the checks. The source reads \<open>idResult.value\<close>
  through a type assertion, after \<open>errors.length > 0\<close> was false. A failed
  \<open>idResult\<close> has pushed its error, so the assertion is only reached with a success; the
  \<open>Err\<close> branch under it is there to make the case distinction total.
\<close>

definition createRisk :: "int \<Rightarrow> CreateRiskInput \<Rightarrow> (Risk, ValidationError list) Result" where
  "createRisk now input =
     (let idResult = riskId (CreateRiskInput.id input);
          errors1 = (case idResult of Err e \<Rightarrow> [e] | Ok _ \<Rightarrow> []);
          errors2 = (if CreateRiskInput.title input = [] \<or>
                        length (trim (CreateRiskInput.title input)) = 0
                     then errors1 @ [validationError ''title'' ''Risk title is required'' ''REQUIRED'']
                     else errors1)
      in if length errors2 > 0 then Err errors2
         else (let score = calculateRiskScore (CreateRiskInput.likelihood input)
                             (CreateRiskInput.impact input)
               in case idResult of
                    Err e \<Rightarrow> Err errors2
                  | Ok rid \<Rightarrow>
                      Ok \<lparr>Risk.id = rid,
                          title = CreateRiskInput.title input,
                          description = CreateRiskInput.description input,
                          category = CreateRiskInput.category input,
                          inherentScore = score,
                          residualScore = score,
                          status = Identified (newDate now),
                          ownerId = CreateRiskInput.ownerId input\<rparr>))"

definition updateRiskStatus :: "int \<Rightarrow> Risk \<Rightarrow> RiskStatus \<Rightarrow> (Risk, ValidationError) Result" where
  "updateRiskStatus now risk newStatus =
     (case Risk.status risk of
        Closed _ _ \<Rightarrow>
          Err (validationError ''status'' ''Cannot transition from Closed status''
                 ''INVALID_TRANSITION'')
      | _ \<Rightarrow>
          (case newStatus of
             Accepted _ _ expires \<Rightarrow>
               if date_le expires (newDate now)
               then Err (validationError ''expiresAt''
                           ''Acceptance expiration date must be in the future''
                           ''INVALID_EXPIRATION'')
               else Ok (risk\<lparr>Risk.status := newStatus\<rparr>)
           | _ \<Rightarrow> Ok (risk\<lparr>Risk.status := newStatus\<rparr>)))"

definition updateResidualScore :: "Risk \<Rightarrow> RiskLevel \<Rightarrow> RiskLevel \<Rightarrow> Risk" where
  "updateResidualScore risk l i = risk\<lparr>residualScore := calculateRiskScore l i\<rparr>"

section \<open>domain/control.ts\<close>

datatype ControlStatus =
    NotImplemented
  | InProgress Percentage
  | Implemented Date
  | NotApplicable js_string
  | Failed js_string Date

text \<open>
  The field \<open>frameworkId\<close> of a control and the field \<open>controlId\<close> of an evidence
  are primed: the unprimed names are the identifier constructors.
\<close>

record Control =
  id :: ControlId
  frameworkId' :: FrameworkId
  code :: js_string
  title :: js_string
  description :: js_string
  status :: ControlStatus
  ownerId :: UserId

definition updateControlStatus ::
    "Control \<Rightarrow> ControlStatus \<Rightarrow> (Control, ValidationError) Result" where
  "updateControlStatus control newStatus =
     (case (Control.status control, newStatus) of
        (ControlStatus.Failed _ _, Implemented _) \<Rightarrow>
          Err (validationError ''status''
                 ''Cannot transition directly from Failed to Implemented''
                 ''INVALID_TRANSITION'')
      | _ \<Rightarrow> Ok (control\<lparr>Control.status := newStatus\<rparr>))"

section \<open>domain/evidence.ts\<close>

datatype FileType = PDF | DOCX | XLSX | PNG | JPG

datatype CheckResult = Passed | Failed js_string | Skipped js_string

datatype EvidenceType =
    Document Url FileType
  | Screenshot Url Date
  | AutomatedCheck IntegrationId js_string Date CheckResult
  | ManualReview UserId Date js_string

datatype EvidenceStatus = Valid | Expired | Pending | Rejected

text \<open>\<open>expiresAt\<close> is \<open>Date | null\<close>: \<open>None\<close> is \<open>null\<close>.\<close>

record Evidence =
  id :: EvidenceId
  controlId' :: ControlId
  evidenceType :: EvidenceType
  collectedAt :: Date
  expiresAt :: "Date option"
  description :: js_string

record CreateEvidenceInput =
  id :: js_string
  controlId' :: ControlId
  evidenceType :: EvidenceType
  collectedAt :: Date
  expiresAt :: "Date option"
  description :: js_string

text \<open>
  \<open>createEvidence\<close> reads the clock twice, once in the expiration check (\<open>now1\<close>) and
  once in the collection-date check (\<open>now2\<close>). As in \<open>createRisk\<close>, \<open>idResult.value\<close>
  is read only when no error was pushed, and the \<open>Err\<close> branch under the type assertion
  is never reached.
\<close>

definition createEvidence ::
    "int \<Rightarrow> int \<Rightarrow> CreateEvidenceInput \<Rightarrow> (Evidence, ValidationError list) Result" where
  "createEvidence now1 now2 input =
     (let idResult = evidenceId (CreateEvidenceInput.id input);
          errors1 = (case idResult of Err e \<Rightarrow> [e] | Ok _ \<Rightarrow> []);
          errors2 = (if (case CreateEvidenceInput.expiresAt input of
                           None \<Rightarrow> False
                         | Some d \<Rightarrow> date_le d (newDate now1))
                     then errors1 @ [validationError ''expiresAt''
                                       ''Expiration date must be in the future''
                                       ''INVALID_EXPIRATION'']
                     else errors1);
          errors3 = (if date_gt (CreateEvidenceInput.collectedAt input) (newDate now2)
                     then errors2 @ [validationError ''collectedAt''
                                       ''Collection date cannot be in the future''
                                       ''INVALID_COLLECTION_DATE'']
                     else errors2)
      in if length errors3 > 0 then Err errors3
         else (case idResult of
                 Err e \<Rightarrow> Err errors3
               | Ok eid \<Rightarrow>
                   Ok \<lparr>Evidence.id = eid,
                       controlId' = CreateEvidenceInput.controlId' input,
                       evidenceType = CreateEvidenceInput.evidenceType input,
                       collectedAt = CreateEvidenceInput.collectedAt input,
                       expiresAt = CreateEvidenceInput.expiresAt input,
                       description = CreateEvidenceInput.description input\<rparr>))"

definition getEvidenceStatus :: "int \<Rightarrow> Evidence \<Rightarrow> EvidenceStatus" where
  "getEvidenceStatus now evidence =
     (if (case Evidence.expiresAt evidence of
            None \<Rightarrow> False
          | Some d \<Rightarrow> date_lt d (newDate now))
      then Expired
      else (case Evidence.evidenceType evidence of
              AutomatedCheck _ _ _ result \<Rightarrow>
                (case result of
                   CheckResult.Failed _ \<Rightarrow> Rejected
                 | Skipped _ \<Rightarrow> Pending
                 | Passed \<Rightarrow> Valid)
            | _ \<Rightarrow> Valid))"

section \<open>domain/framework.ts\<close>

datatype FrameworkType = SOC2 | ISO27001 | HIPAA | PCI_DSS | GDPR

datatype FrameworkStatus = Draft | Active | Deprecated

text \<open>The field \<open>type\<close> of the source is written \<open>type'\<close>.\<close>

record Framework =
  id :: FrameworkId
  type' :: FrameworkType
  name :: js_string
  version :: js_string
  description :: js_string
  status :: FrameworkStatus
  controlIds :: "ControlId list"

definition updateFrameworkStatus ::
    "Framework \<Rightarrow> FrameworkStatus \<Rightarrow> (Framework, ValidationError) Result" where
  "updateFrameworkStatus framework newStatus =
     (if Framework.status framework = Deprecated \<and> newStatus = Active
      then Err (validationError ''status'' ''Cannot reactivate a deprecated framework''
                  ''INVALID_TRANSITION'')
      else if newStatus = Active \<and> length (Framework.controlIds framework) = 0
      then Err (validationError ''status'' ''Cannot activate a framework without controls''
                  ''NO_CONTROLS'')
      else Ok (framework\<lparr>Framework.status := newStatus\<rparr>))"

text \<open>\<open>Array.prototype.includes\<close> on strings is membership by string equality.\<close>

definition addControlToFramework :: "Framework \<Rightarrow> ControlId \<Rightarrow> Framework" where
  "addControlToFramework framework cid =
     (if cid \<in> set (Framework.controlIds framework) then framework
      else framework\<lparr>Framework.controlIds := Framework.controlIds framework @ [cid]\<rparr>)"

section \<open>Comparisons with a clock reading\<close>

text \<open>
  A date compared with a fresh clock reading: the comparison holds only of a valid date,
  and then it is the comparison of the two time values.
\<close>

lemma date_le_newDate: "date_le (DateAt t) (newDate now) = (t \<le> now)"
  and date_le_Invalid: "date_le InvalidDate d = False"
  and date_lt_newDate: "date_lt (DateAt t) (newDate now) = (t < now)"
  and date_lt_Invalid: "date_lt InvalidDate d = False"
  and date_gt_newDate: "date_gt (DateAt t) (newDate now) = (now < t)"
  and date_gt_Invalid: "date_gt InvalidDate d = False"
  by (simp_all add: newDate_def date_gt_def)

lemma date_le_newDate_iff: "date_le d (newDate now) = (\<exists>t. d = DateAt t \<and> t \<le> now)"
  by (cases d) (simp_all add: newDate_def)

lemma date_lt_newDate_iff: "date_lt d (newDate now) = (\<exists>t. d = DateAt t \<and> t < now)"
  by (cases d) (simp_all add: newDate_def)

lemma date_gt_newDate_iff: "date_gt d (newDate now) = (\<exists>t. d = DateAt t \<and> now < t)"
  by (cases d) (simp_all add: newDate_def date_gt_def)

section \<open>Blank strings\<close>

text \<open>
  The trimmed string is empty exactly when every code unit of the string is whitespace,
  which includes the empty string.
\<close>

lemma trim_empty_iff: "(length (trim s) = 0) = list_all isWhiteSpace s"
proof -
  have "(dropWhile isWhiteSpace (rev (dropWhile isWhiteSpace s)) = []) =
        (\<forall>x \<in> set (dropWhile isWhiteSpace s). isWhiteSpace x)"
    by (simp add: dropWhile_eq_Nil_conv)
  also have "\<dots> = (dropWhile isWhiteSpace s = [])"
  proof
    assume a: "\<forall>x \<in> set (dropWhile isWhiteSpace s). isWhiteSpace x"
    show "dropWhile isWhiteSpace s = []"
    proof (rule ccontr)
      assume n: "dropWhile isWhiteSpace s \<noteq> []"
      then have "\<not> isWhiteSpace (hd (dropWhile isWhiteSpace s))" by (rule hd_dropWhile)
      moreover from n have "hd (dropWhile isWhiteSpace s) \<in> set (dropWhile isWhiteSpace s)" by simp
      ultimately show False using a by blast
    qed
  next
    assume e: "dropWhile isWhiteSpace s = []"
    show "\<forall>x \<in> set (dropWhile isWhiteSpace s). isWhiteSpace x" unfolding e by simp
  qed
  also have "\<dots> = list_all isWhiteSpace s"
    by (simp add: dropWhile_eq_Nil_conv list_all_iff)
  finally show ?thesis by (simp add: trim_def)
qed

lemma createId_cases:
  "createId s tn = (if list_all isWhiteSpace s
      then Err (validationError ''id'' (tn @ '' cannot be empty'') ''EMPTY_ID'') else Ok s)"
  using trim_empty_iff [of s] by (auto simp: createId_def)

section \<open>Control status\<close>

text \<open>
  C1. \<open>updateControlStatus\<close> returns an error exactly when the control is Failed and the
  new status is Implemented. The error is then the one with code \<open>INVALID_TRANSITION\<close> and
  message "Cannot transition directly from Failed to Implemented", and the control given to
  the call still has its Failed status: the function builds a new value and never writes to
  its argument. For every other pair, Failed to Failed and Failed to NotApplicable among
  them, the result is the control with its status replaced by the new one.
\<close>

theorem updateControlStatus_forbidden_edge:
  "((\<exists>e. updateControlStatus c s = Err e) =
      ((\<exists>r d. Control.status c = ControlStatus.Failed r d) \<and> (\<exists>t. s = Implemented t))) \<and>
   (\<forall>e. updateControlStatus c s = Err e \<longrightarrow>
      e = validationError ''status'' ''Cannot transition directly from Failed to Implemented''
            ''INVALID_TRANSITION'' \<and>
      (\<exists>r d. Control.status c = ControlStatus.Failed r d)) \<and>
   (\<not> ((\<exists>r d. Control.status c = ControlStatus.Failed r d) \<and> (\<exists>t. s = Implemented t)) \<longrightarrow>
      updateControlStatus c s = Ok (c\<lparr>Control.status := s\<rparr>))"
  by (cases "Control.status c"; cases s) (simp_all add: updateControlStatus_def)

text \<open>
  A Failed control: Implemented is refused, NotApplicable and Failed are accepted.
\<close>

theorem updateControlStatus_forbidden_edge_witness:
  "(let c = \<lparr>Control.id = utf16 ''CTL-1'', frameworkId' = utf16 ''FW-1'',
             code = utf16 ''CC6.1'', title = utf16 ''Access reviews'', description = [],
             status = ControlStatus.Failed (utf16 ''audit finding'') (DateAt 1000),
             ownerId = utf16 ''U-1''\<rparr>
    in updateControlStatus c (Implemented (DateAt 2000)) =
         Err (validationError ''status''
                ''Cannot transition directly from Failed to Implemented'' ''INVALID_TRANSITION'') \<and>
       updateControlStatus c (NotApplicable (utf16 ''out of scope'')) =
         Ok (c\<lparr>Control.status := NotApplicable (utf16 ''out of scope'')\<rparr>) \<and>
       updateControlStatus c (ControlStatus.Failed (utf16 ''again'') (DateAt 3000)) =
         Ok (c\<lparr>Control.status := ControlStatus.Failed (utf16 ''again'') (DateAt 3000)\<rparr>))"
proof -
  let ?c = "\<lparr>Control.id = utf16 ''CTL-1'', frameworkId' = utf16 ''FW-1'',
             code = utf16 ''CC6.1'', title = utf16 ''Access reviews'', description = [],
             status = ControlStatus.Failed (utf16 ''audit finding'') (DateAt 1000),
             ownerId = utf16 ''U-1''\<rparr>"
  have "updateControlStatus ?c (Implemented (DateAt 2000)) =
         Err (validationError ''status''
                ''Cannot transition directly from Failed to Implemented'' ''INVALID_TRANSITION'')"
    using updateControlStatus_forbidden_edge [of ?c "Implemented (DateAt 2000)"] by auto
  moreover have "updateControlStatus ?c (NotApplicable (utf16 ''out of scope'')) =
         Ok (?c\<lparr>Control.status := NotApplicable (utf16 ''out of scope'')\<rparr>)"
    using updateControlStatus_forbidden_edge [of ?c "NotApplicable (utf16 ''out of scope'')"]
    by simp
  moreover have "updateControlStatus ?c (ControlStatus.Failed (utf16 ''again'') (DateAt 3000)) =
         Ok (?c\<lparr>Control.status := ControlStatus.Failed (utf16 ''again'') (DateAt 3000)\<rparr>)"
    using updateControlStatus_forbidden_edge
            [of ?c "ControlStatus.Failed (utf16 ''again'') (DateAt 3000)"]
    by simp
  ultimately show ?thesis by (simp add: Let_def)
qed

section \<open>Risk status\<close>

text \<open>
  C2. A Closed risk refuses every new status with \<open>INVALID_TRANSITION\<close>. Otherwise a
  new status Accepted whose expiry is not after the clock reading is refused with
  \<open>INVALID_EXPIRATION\<close>, and in every remaining case the result is the risk with its
  status replaced by the new one, whatever the status it had.
\<close>

theorem updateRiskStatus_rules:
  "((\<exists>t res. Risk.status r = Closed t res) \<longrightarrow>
      updateRiskStatus now r s =
        Err (validationError ''status'' ''Cannot transition from Closed status''
               ''INVALID_TRANSITION'')) \<and>
   (\<not> (\<exists>t res. Risk.status r = Closed t res) \<longrightarrow> e \<le> now \<longrightarrow>
      updateRiskStatus now r (Accepted u why (DateAt e)) =
        Err (validationError ''expiresAt'' ''Acceptance expiration date must be in the future''
               ''INVALID_EXPIRATION'')) \<and>
   (\<not> (\<exists>t res. Risk.status r = Closed t res) \<longrightarrow>
    \<not> (\<exists>u why e. s = Accepted u why (DateAt e) \<and> e \<le> now) \<longrightarrow>
      updateRiskStatus now r s = Ok (r\<lparr>Risk.status := s\<rparr>))"
  by (cases "Risk.status r"; cases s)
     (auto simp: updateRiskStatus_def date_le_newDate_iff)

text \<open>
  A Closed risk refuses Identified; an Identified risk refuses an acceptance that expires
  at the clock reading and takes one that expires a millisecond later.
\<close>

theorem updateRiskStatus_rules_witness:
  "(let score = calculateRiskScore High Medium;
        r = \<lparr>Risk.id = utf16 ''R-1'', title = utf16 ''Vendor outage'', description = [],
             category = Operational, inherentScore = score, residualScore = score,
             status = Identified (DateAt 1000), ownerId = utf16 ''U-1''\<rparr>;
        closed = r\<lparr>Risk.status := Closed (DateAt 1500) (utf16 ''resolved'')\<rparr>
    in updateRiskStatus 2000 closed (Identified (DateAt 2000)) =
         Err (validationError ''status'' ''Cannot transition from Closed status''
                ''INVALID_TRANSITION'') \<and>
       updateRiskStatus 2000 r (Accepted (utf16 ''U-2'') (utf16 ''low impact'') (DateAt 2000)) =
         Err (validationError ''expiresAt''
                ''Acceptance expiration date must be in the future'' ''INVALID_EXPIRATION'') \<and>
       updateRiskStatus 2000 r (Accepted (utf16 ''U-2'') (utf16 ''low impact'') (DateAt 2001)) =
         Ok (r\<lparr>Risk.status := Accepted (utf16 ''U-2'') (utf16 ''low impact'') (DateAt 2001)\<rparr>))"
proof -
  let ?r = "\<lparr>Risk.id = utf16 ''R-1'', title = utf16 ''Vendor outage'', description = [],
             category = Operational, inherentScore = calculateRiskScore High Medium,
             residualScore = calculateRiskScore High Medium,
             status = Identified (DateAt 1000), ownerId = utf16 ''U-1''\<rparr>"
  let ?closed = "?r\<lparr>Risk.status := Closed (DateAt 1500) (utf16 ''resolved'')\<rparr>"
  have "updateRiskStatus 2000 ?closed (Identified (DateAt 2000)) =
         Err (validationError ''status'' ''Cannot transition from Closed status''
                ''INVALID_TRANSITION'')"
    using updateRiskStatus_rules [of ?closed 2000 "Identified (DateAt 2000)"] by simp
  moreover have
    "updateRiskStatus 2000 ?r (Accepted (utf16 ''U-2'') (utf16 ''low impact'') (DateAt 2000)) =
         Err (validationError ''expiresAt''
                ''Acceptance expiration date must be in the future'' ''INVALID_EXPIRATION'')"
    using updateRiskStatus_rules [of ?r 2000 _ 2000 "utf16 ''U-2''" "utf16 ''low impact''"]
    by simp
  moreover have
    "updateRiskStatus 2000 ?r (Accepted (utf16 ''U-2'') (utf16 ''low impact'') (DateAt 2001)) =
         Ok (?r\<lparr>Risk.status := Accepted (utf16 ''U-2'') (utf16 ''low impact'') (DateAt 2001)\<rparr>)"
    using updateRiskStatus_rules
            [of ?r 2000 "Accepted (utf16 ''U-2'') (utf16 ''low impact'') (DateAt 2001)"]
    by simp
  ultimately show ?thesis by (simp add: Let_def)
qed

section \<open>Evidence status\<close>

text \<open>
  C3. An evidence whose expiry is present and before the clock reading is Expired, whatever
  its type. Otherwise an automated check is Rejected when its result is Failed, Pending when
  Skipped and Valid when Passed, and every other evidence is Valid.
\<close>

theorem getEvidenceStatus_precedence:
  "(Evidence.expiresAt ev = Some (DateAt t) \<longrightarrow> t < now \<longrightarrow>
      getEvidenceStatus now ev = Expired) \<and>
   (\<not> (\<exists>t. Evidence.expiresAt ev = Some (DateAt t) \<and> t < now) \<longrightarrow>
      (\<forall>i n d why. Evidence.evidenceType ev = AutomatedCheck i n d (CheckResult.Failed why) \<longrightarrow>
         getEvidenceStatus now ev = Rejected) \<and>
      (\<forall>i n d why. Evidence.evidenceType ev = AutomatedCheck i n d (Skipped why) \<longrightarrow>
         getEvidenceStatus now ev = Pending) \<and>
      (\<forall>i n d. Evidence.evidenceType ev = AutomatedCheck i n d Passed \<longrightarrow>
         getEvidenceStatus now ev = Valid) \<and>
      (\<not> (\<exists>i n d res. Evidence.evidenceType ev = AutomatedCheck i n d res) \<longrightarrow>
         getEvidenceStatus now ev = Valid))"
  by (cases "Evidence.expiresAt ev"; cases "Evidence.evidenceType ev")
     (auto simp: getEvidenceStatus_def date_lt_newDate_iff split: CheckResult.splits)

text \<open>
  An automated check that passed and expires at 1000: Expired at 1001, Valid at 1000; with
  the other results and types at 1000.
\<close>

theorem getEvidenceStatus_precedence_witness:
  "(let ev = \<lparr>Evidence.id = utf16 ''E-1'', controlId' = utf16 ''CTL-1'',
              evidenceType = AutomatedCheck (utf16 ''I-1'') (utf16 ''mfa'') (DateAt 900) Passed,
              collectedAt = DateAt 900, expiresAt = Some (DateAt 1000),
              description = []\<rparr>
    in getEvidenceStatus 1001 ev = Expired \<and>
       getEvidenceStatus 1000 ev = Valid \<and>
       getEvidenceStatus 1000
         (ev\<lparr>Evidence.evidenceType :=
               AutomatedCheck (utf16 ''I-1'') (utf16 ''mfa'') (DateAt 900)
                 (CheckResult.Failed (utf16 ''disabled''))\<rparr>) = Rejected \<and>
       getEvidenceStatus 1000
         (ev\<lparr>Evidence.evidenceType :=
               AutomatedCheck (utf16 ''I-1'') (utf16 ''mfa'') (DateAt 900)
                 (Skipped (utf16 ''offline''))\<rparr>) = Pending \<and>
       getEvidenceStatus 1000
         (ev\<lparr>Evidence.evidenceType := ManualReview (utf16 ''U-1'') (DateAt 900) []\<rparr>) = Valid)"
proof -
  let ?ev = "\<lparr>Evidence.id = utf16 ''E-1'', controlId' = utf16 ''CTL-1'',
              evidenceType = AutomatedCheck (utf16 ''I-1'') (utf16 ''mfa'') (DateAt 900) Passed,
              collectedAt = DateAt 900, expiresAt = Some (DateAt 1000),
              description = []\<rparr>"
  have "getEvidenceStatus 1001 ?ev = Expired"
    using getEvidenceStatus_precedence [of ?ev 1000 1001] by simp
  moreover have "getEvidenceStatus 1000 ?ev = Valid"
    using getEvidenceStatus_precedence [of ?ev _ 1000] by simp
  moreover have "getEvidenceStatus 1000
         (?ev\<lparr>Evidence.evidenceType :=
               AutomatedCheck (utf16 ''I-1'') (utf16 ''mfa'') (DateAt 900)
                 (CheckResult.Failed (utf16 ''disabled''))\<rparr>) = Rejected"
    using getEvidenceStatus_precedence
            [of "?ev\<lparr>Evidence.evidenceType :=
               AutomatedCheck (utf16 ''I-1'') (utf16 ''mfa'') (DateAt 900)
                 (CheckResult.Failed (utf16 ''disabled''))\<rparr>" _ 1000] by simp
  moreover have "getEvidenceStatus 1000
         (?ev\<lparr>Evidence.evidenceType :=
               AutomatedCheck (utf16 ''I-1'') (utf16 ''mfa'') (DateAt 900)
                 (Skipped (utf16 ''offline''))\<rparr>) = Pending"
    using getEvidenceStatus_precedence
            [of "?ev\<lparr>Evidence.evidenceType :=
               AutomatedCheck (utf16 ''I-1'') (utf16 ''mfa'') (DateAt 900)
                 (Skipped (utf16 ''offline''))\<rparr>" _ 1000] by simp
  moreover have "getEvidenceStatus 1000
         (?ev\<lparr>Evidence.evidenceType := ManualReview (utf16 ''U-1'') (DateAt 900) []\<rparr>) = Valid"
    using getEvidenceStatus_precedence
            [of "?ev\<lparr>Evidence.evidenceType := ManualReview (utf16 ''U-1'') (DateAt 900) []\<rparr>"
                _ 1000] by simp
  ultimately show ?thesis by (simp add: Let_def)
qed

section \<open>Risk score\<close>

text \<open>
  C4. For each of the sixteen pairs of levels, the score's value is the product of the two
  ordinals (Low 1, Medium 2, High 3, Critical 4) and its label is the band of that value:
  Low up to 2, Medium up to 6, High up to 12, Critical above. The band is exact at its
  boundaries: 2 is Low, 3 and 6 are Medium, 7 and 12 are High, 13 is Critical. The last two
  equations are the whole table of values and of labels, rows by likelihood and columns by
  impact, each from Low to Critical.
\<close>

theorem calculateRiskScore_value_and_band:
  "value' (calculateRiskScore l i) = riskLevelValue l * riskLevelValue i \<and>
   label (calculateRiskScore l i) =
     (if value' (calculateRiskScore l i) \<le> 2 then ''Low''
      else if value' (calculateRiskScore l i) \<le> 6 then ''Medium''
      else if value' (calculateRiskScore l i) \<le> 12 then ''High''
      else ''Critical'') \<and>
   RiskScore.likelihood (calculateRiskScore l i) = l \<and>
   RiskScore.impact (calculateRiskScore l i) = i \<and>
   map riskLevelValue [Low, Medium, High, Critical] = [1, 2, 3, 4] \<and>
   map riskLabel [2, 3, 6, 7, 12, 13] =
     [''Low'', ''Medium'', ''Medium'', ''High'', ''High'', ''Critical''] \<and>
   map (\<lambda>a. map (\<lambda>b. value' (calculateRiskScore a b)) [Low, Medium, High, Critical])
     [Low, Medium, High, Critical] =
     [[1, 2, 3, 4], [2, 4, 6, 8], [3, 6, 9, 12], [4, 8, 12, 16]] \<and>
   map (\<lambda>a. map (\<lambda>b. label (calculateRiskScore a b)) [Low, Medium, High, Critical])
     [Low, Medium, High, Critical] =
     [[''Low'', ''Low'', ''Medium'', ''Medium''],
      [''Low'', ''Medium'', ''Medium'', ''High''],
      [''Medium'', ''Medium'', ''High'', ''High''],
      [''Medium'', ''High'', ''High'', ''Critical'']]"
  by (simp add: calculateRiskScore_def riskLabel_def Let_def)

section \<open>Framework status\<close>

text \<open>
  C5. For a Deprecated framework the new status Active is refused with
  \<open>INVALID_TRANSITION\<close>; this rule comes first. For any other framework Active is refused
  with \<open>NO_CONTROLS\<close> when the framework has no control. Every other update succeeds with
  the status replaced. So a framework that is not Deprecated and has no control cannot be
  activated, and can be once a control has been added.
\<close>

theorem updateFrameworkStatus_rules:
  "(Framework.status f = Deprecated \<longrightarrow>
      updateFrameworkStatus f Active =
        Err (validationError ''status'' ''Cannot reactivate a deprecated framework''
               ''INVALID_TRANSITION'')) \<and>
   (Framework.status f \<noteq> Deprecated \<longrightarrow> Framework.controlIds f = [] \<longrightarrow>
      updateFrameworkStatus f Active =
        Err (validationError ''status'' ''Cannot activate a framework without controls''
               ''NO_CONTROLS'')) \<and>
   (\<not> (Framework.status f = Deprecated \<and> s = Active) \<longrightarrow>
    \<not> (s = Active \<and> Framework.controlIds f = []) \<longrightarrow>
      updateFrameworkStatus f s = Ok (f\<lparr>Framework.status := s\<rparr>)) \<and>
   (Framework.status f \<noteq> Deprecated \<longrightarrow>
      updateFrameworkStatus (addControlToFramework f x) Active =
        Ok ((addControlToFramework f x)\<lparr>Framework.status := Active\<rparr>))"
  by (auto simp: updateFrameworkStatus_def addControlToFramework_def)

text \<open>
  A fresh Draft framework: activation fails without a control and succeeds after
  \<open>addControlToFramework\<close>; a Deprecated one cannot be reactivated.
\<close>

theorem updateFrameworkStatus_rules_witness:
  "(let f = \<lparr>Framework.id = utf16 ''FW-1'', type' = SOC2, name = utf16 ''SOC 2'',
             version = utf16 ''1.0'', description = [], status = Draft, controlIds = []\<rparr>
    in updateFrameworkStatus f Active =
         Err (validationError ''status'' ''Cannot activate a framework without controls''
                ''NO_CONTROLS'') \<and>
       updateFrameworkStatus (addControlToFramework f (utf16 ''CTL-1'')) Active =
         Ok ((addControlToFramework f (utf16 ''CTL-1''))\<lparr>Framework.status := Active\<rparr>) \<and>
       updateFrameworkStatus (f\<lparr>Framework.status := Deprecated\<rparr>) Active =
         Err (validationError ''status'' ''Cannot reactivate a deprecated framework''
                ''INVALID_TRANSITION'') \<and>
       updateFrameworkStatus f Deprecated = Ok (f\<lparr>Framework.status := Deprecated\<rparr>))"
proof -
  let ?f = "\<lparr>Framework.id = utf16 ''FW-1'', type' = SOC2, name = utf16 ''SOC 2'',
             version = utf16 ''1.0'', description = [], status = Draft, controlIds = []\<rparr>"
  have "updateFrameworkStatus ?f Active =
         Err (validationError ''status'' ''Cannot activate a framework without controls''
                ''NO_CONTROLS'')"
    using updateFrameworkStatus_rules [of ?f] by simp
  moreover have "updateFrameworkStatus (addControlToFramework ?f (utf16 ''CTL-1'')) Active =
         Ok ((addControlToFramework ?f (utf16 ''CTL-1''))\<lparr>Framework.status := Active\<rparr>)"
    using updateFrameworkStatus_rules [of ?f _ "utf16 ''CTL-1''"] by simp
  moreover have "updateFrameworkStatus (?f\<lparr>Framework.status := Deprecated\<rparr>) Active =
         Err (validationError ''status'' ''Cannot reactivate a deprecated framework''
                ''INVALID_TRANSITION'')"
    using updateFrameworkStatus_rules [of "?f\<lparr>Framework.status := Deprecated\<rparr>"] by simp
  moreover have "updateFrameworkStatus ?f Deprecated = Ok (?f\<lparr>Framework.status := Deprecated\<rparr>)"
    using updateFrameworkStatus_rules [of ?f Deprecated] by simp
  ultimately show ?thesis by (simp add: Let_def)
qed

section \<open>Controls of a framework\<close>

text \<open>
  The list of controls of a framework is free of duplicates: \<open>createFramework\<close> builds
  it empty, \<open>addControlToFramework\<close> keeps it free of duplicates, also over any sequence
  of additions, and \<open>updateFrameworkStatus\<close> does not touch it.
\<close>

lemma addControlToFramework_distinct:
  "distinct (Framework.controlIds f) \<Longrightarrow>
   distinct (Framework.controlIds (addControlToFramework f x))"
  by (simp add: addControlToFramework_def)

lemma updateFrameworkStatus_controlIds:
  "updateFrameworkStatus f s = Ok g \<Longrightarrow> Framework.controlIds g = Framework.controlIds f"
  by (auto simp: updateFrameworkStatus_def split: if_splits)

lemma distinct_count_list_le_1: "distinct xs \<Longrightarrow> count_list xs x \<le> 1"
  by (induction xs) auto

lemma foldl_addControlToFramework_distinct:
  "distinct (Framework.controlIds f) \<Longrightarrow>
   distinct (Framework.controlIds (foldl addControlToFramework f xs))"
  by (induction xs arbitrary: f) (simp_all add: addControlToFramework_distinct)

text \<open>
  C6. \<open>addControlToFramework\<close> is total and returns a framework, never an error. If
  the control is already present the framework is returned unchanged; otherwise the control
  is appended at the end and the earlier controls keep their order. Adding the same control
  a second time changes nothing. Consequently, on a framework whose list of controls is free
  of duplicates, as the data model has it, the list is still free of duplicates after an
  addition and holds the control exactly once after two additions of it; a list that held
  the control at most once is enough for that. In particular this holds of every framework
  reached from one without controls by any sequence of additions.
\<close>

theorem addControlToFramework_idempotent:
  "(x \<in> set (Framework.controlIds f) \<longrightarrow> addControlToFramework f x = f) \<and>
   (x \<notin> set (Framework.controlIds f) \<longrightarrow>
      addControlToFramework f x = f\<lparr>Framework.controlIds := Framework.controlIds f @ [x]\<rparr>) \<and>
   addControlToFramework (addControlToFramework f x) x = addControlToFramework f x \<and>
   take (length (Framework.controlIds f)) (Framework.controlIds (addControlToFramework f x)) =
     Framework.controlIds f \<and>
   x \<in> set (Framework.controlIds (addControlToFramework f x)) \<and>
   (distinct (Framework.controlIds f) \<longrightarrow>
      distinct (Framework.controlIds (addControlToFramework f x)) \<and>
      count_list (Framework.controlIds
        (addControlToFramework (addControlToFramework f x) x)) x = 1) \<and>
   (count_list (Framework.controlIds f) x \<le> 1 \<longrightarrow>
      count_list (Framework.controlIds
        (addControlToFramework (addControlToFramework f x) x)) x = 1) \<and>
   (Framework.controlIds f = [] \<longrightarrow>
      count_list (Framework.controlIds
        (addControlToFramework
           (addControlToFramework (foldl addControlToFramework f xs) x) x)) x = 1)"
proof -
  have twice: "count_list (Framework.controlIds
        (addControlToFramework (addControlToFramework g x) x)) x = 1"
    if le: "count_list (Framework.controlIds g) x \<le> 1" for g
  proof -
    have present: "x \<in> set (Framework.controlIds g) \<Longrightarrow>
        0 < count_list (Framework.controlIds g) x"
      using count_list_0_iff [of "Framework.controlIds g" x] by simp
    have absent: "x \<notin> set (Framework.controlIds g) \<Longrightarrow>
        count_list (Framework.controlIds g) x = 0"
      by (simp add: count_list_0_iff)
    show ?thesis
      using le present absent by (auto simp: addControlToFramework_def)
  qed
  have basic:
    "(x \<in> set (Framework.controlIds f) \<longrightarrow> addControlToFramework f x = f) \<and>
     (x \<notin> set (Framework.controlIds f) \<longrightarrow>
        addControlToFramework f x =
          f\<lparr>Framework.controlIds := Framework.controlIds f @ [x]\<rparr>) \<and>
     addControlToFramework (addControlToFramework f x) x = addControlToFramework f x \<and>
     take (length (Framework.controlIds f))
       (Framework.controlIds (addControlToFramework f x)) = Framework.controlIds f \<and>
     x \<in> set (Framework.controlIds (addControlToFramework f x))"
    by (auto simp: addControlToFramework_def)
  have inv: "distinct (Framework.controlIds f) \<longrightarrow>
      distinct (Framework.controlIds (addControlToFramework f x)) \<and>
      count_list (Framework.controlIds
        (addControlToFramework (addControlToFramework f x) x)) x = 1"
  proof (intro impI conjI)
    assume d: "distinct (Framework.controlIds f)"
    show "distinct (Framework.controlIds (addControlToFramework f x))"
      using d by (rule addControlToFramework_distinct)
    show "count_list (Framework.controlIds
        (addControlToFramework (addControlToFramework f x) x)) x = 1"
      using d by (rule twice [OF distinct_count_list_le_1])
  qed
  have reach: "Framework.controlIds f = [] \<longrightarrow>
      count_list (Framework.controlIds
        (addControlToFramework
           (addControlToFramework (foldl addControlToFramework f xs) x) x)) x = 1"
  proof
    assume "Framework.controlIds f = []"
    then have "distinct (Framework.controlIds (foldl addControlToFramework f xs))"
      by (simp add: foldl_addControlToFramework_distinct)
    then show "count_list (Framework.controlIds
        (addControlToFramework
           (addControlToFramework (foldl addControlToFramework f xs) x) x)) x = 1"
      by (rule twice [OF distinct_count_list_le_1])
  qed
  show ?thesis
    using basic inv twice [of f] reach by blast
qed

text \<open>
  A framework with one control: adding it again changes nothing, adding another appends it,
  the list stays free of duplicates, and adding either control twice leaves one occurrence
  of it; so does adding a control twice after a sequence of additions to an empty list.
\<close>

theorem addControlToFramework_idempotent_witness:
  "(let f = \<lparr>Framework.id = utf16 ''FW-1'', type' = SOC2, name = utf16 ''SOC 2'',
             version = utf16 ''1.0'', description = [], status = Draft,
             controlIds = [utf16 ''CTL-1'']\<rparr>
    in addControlToFramework f (utf16 ''CTL-1'') = f \<and>
       addControlToFramework f (utf16 ''CTL-2'') =
         f\<lparr>Framework.controlIds := [utf16 ''CTL-1'', utf16 ''CTL-2'']\<rparr> \<and>
       count_list (Framework.controlIds
         (addControlToFramework (addControlToFramework f (utf16 ''CTL-2'')) (utf16 ''CTL-2'')))
         (utf16 ''CTL-2'') = 1 \<and>
       distinct (Framework.controlIds (addControlToFramework f (utf16 ''CTL-2''))) \<and>
       count_list (Framework.controlIds
         (addControlToFramework (addControlToFramework f (utf16 ''CTL-1'')) (utf16 ''CTL-1'')))
         (utf16 ''CTL-1'') = 1 \<and>
       count_list (Framework.controlIds
         (addControlToFramework
            (addControlToFramework
               (foldl addControlToFramework (f\<lparr>Framework.controlIds := []\<rparr>)
                  [utf16 ''CTL-1'', utf16 ''CTL-2'', utf16 ''CTL-1''])
               (utf16 ''CTL-2''))
            (utf16 ''CTL-2''))) (utf16 ''CTL-2'') = 1)"
proof -
  let ?f = "\<lparr>Framework.id = utf16 ''FW-1'', type' = SOC2, name = utf16 ''SOC 2'',
             version = utf16 ''1.0'', description = [], status = Draft,
             controlIds = [utf16 ''CTL-1'']\<rparr>"
  have ne: "utf16 ''CTL-2'' \<noteq> utf16 ''CTL-1''" "utf16 ''CTL-1'' \<noteq> utf16 ''CTL-2''"
    by (simp_all add: utf16_def)
  have "addControlToFramework ?f (utf16 ''CTL-1'') = ?f"
    using addControlToFramework_idempotent [of "utf16 ''CTL-1''" ?f] by simp
  moreover have "addControlToFramework ?f (utf16 ''CTL-2'') =
         ?f\<lparr>Framework.controlIds := [utf16 ''CTL-1'', utf16 ''CTL-2'']\<rparr>"
    using ne addControlToFramework_idempotent [of "utf16 ''CTL-2''" ?f] by simp
  moreover have "count_list (Framework.controlIds ?f) (utf16 ''CTL-2'') \<le> 1"
    using ne by simp
  then have "count_list (Framework.controlIds
         (addControlToFramework (addControlToFramework ?f (utf16 ''CTL-2'')) (utf16 ''CTL-2'')))
         (utf16 ''CTL-2'') = 1"
    using addControlToFramework_idempotent [of "utf16 ''CTL-2''" ?f] by blast
  moreover have d: "distinct (Framework.controlIds ?f)"
    by simp
  then have "distinct (Framework.controlIds (addControlToFramework ?f (utf16 ''CTL-2'')))"
    using addControlToFramework_idempotent [of "utf16 ''CTL-2''" ?f] by blast
  moreover have "count_list (Framework.controlIds
         (addControlToFramework (addControlToFramework ?f (utf16 ''CTL-1'')) (utf16 ''CTL-1'')))
         (utf16 ''CTL-1'') = 1"
    using d addControlToFramework_idempotent [of "utf16 ''CTL-1''" ?f] by blast
  moreover have "Framework.controlIds (?f\<lparr>Framework.controlIds := []\<rparr>) = []"
    by simp
  then have "count_list (Framework.controlIds
         (addControlToFramework
            (addControlToFramework
               (foldl addControlToFramework (?f\<lparr>Framework.controlIds := []\<rparr>)
                  [utf16 ''CTL-1'', utf16 ''CTL-2'', utf16 ''CTL-1''])
               (utf16 ''CTL-2''))
            (utf16 ''CTL-2''))) (utf16 ''CTL-2'') = 1"
    using addControlToFramework_idempotent
            [of "utf16 ''CTL-2''" "?f\<lparr>Framework.controlIds := []\<rparr>"
                "[utf16 ''CTL-1'', utf16 ''CTL-2'', utf16 ''CTL-1'']"]
    by blast
  ultimately show ?thesis by (simp only: Let_def simp_thms)
qed

section \<open>Identifiers\<close>

text \<open>
  C7. Each of the six identifier constructors fails with code \<open>EMPTY_ID\<close> exactly when
  its input is empty or consists of whitespace only, that is when nothing is left of it
  after trimming. Every input that is non-empty in this sense, one that holds a code unit
  that is not whitespace, succeeds and is wrapped as it is, untrimmed. So a wrapped value is
  never empty and never all whitespace.
\<close>

theorem identifier_constructors:
  "frameworkId s = (if list_all isWhiteSpace s
      then Err (validationError ''id'' ''FrameworkId cannot be empty'' ''EMPTY_ID'') else Ok s) \<and>
   controlId s = (if list_all isWhiteSpace s
      then Err (validationError ''id'' ''ControlId cannot be empty'' ''EMPTY_ID'') else Ok s) \<and>
   evidenceId s = (if list_all isWhiteSpace s
      then Err (validationError ''id'' ''EvidenceId cannot be empty'' ''EMPTY_ID'') else Ok s) \<and>
   riskId s = (if list_all isWhiteSpace s
      then Err (validationError ''id'' ''RiskId cannot be empty'' ''EMPTY_ID'') else Ok s) \<and>
   userId s = (if list_all isWhiteSpace s
      then Err (validationError ''id'' ''UserId cannot be empty'' ''EMPTY_ID'') else Ok s) \<and>
   integrationId s = (if list_all isWhiteSpace s
      then Err (validationError ''id'' ''IntegrationId cannot be empty'' ''EMPTY_ID'') else Ok s)"
  by (simp add: frameworkId_def controlId_def evidenceId_def riskId_def userId_def
      integrationId_def createId_cases)

text \<open>
  Padding is kept; the empty string and strings of spaces, tabs, line feeds and ideographic
  spaces are refused.
\<close>

theorem identifier_constructors_witness:
  "frameworkId (utf16 '' FW-1 '') = Ok (utf16 '' FW-1 '') \<and>
   controlId [] = Err (validationError ''id'' ''ControlId cannot be empty'' ''EMPTY_ID'') \<and>
   evidenceId [0x0020, 0x0009, 0x3000] =
     Err (validationError ''id'' ''EvidenceId cannot be empty'' ''EMPTY_ID'') \<and>
   riskId (utf16 ''R-1'') = Ok (utf16 ''R-1'') \<and>
   userId [0x000A] = Err (validationError ''id'' ''UserId cannot be empty'' ''EMPTY_ID'') \<and>
   integrationId (utf16 ''github'') = Ok (utf16 ''github'')"
proof -
  have ws: "\<not> list_all isWhiteSpace (utf16 '' FW-1 '')" "list_all isWhiteSpace []"
      "list_all isWhiteSpace [0x0020, 0x0009, 0x3000]" "\<not> list_all isWhiteSpace (utf16 ''R-1'')"
      "list_all isWhiteSpace [0x000A]" "\<not> list_all isWhiteSpace (utf16 ''github'')"
    by (simp_all add: utf16_def isWhiteSpace_def)
  show ?thesis
    using ws identifier_constructors [of "utf16 '' FW-1 ''"] identifier_constructors [of "[]"]
      identifier_constructors [of "[0x0020, 0x0009, 0x3000]"]
      identifier_constructors [of "utf16 ''R-1''"] identifier_constructors [of "[0x000A]"]
      identifier_constructors [of "utf16 ''github''"]
    by simp
qed

section \<open>Percentage\<close>

text \<open>
  C8, as amended. For every number other than NaN, \<open>percentage\<close> succeeds exactly when
  the number lies in [0, 100] and fails with \<open>INVALID_PERCENTAGE\<close> otherwise. A percentage
  built from such a number wraps the number itself, which lies in [0, 100] and need not be an
  integer, and building a percentage from the wrapped number gives the same result.
\<close>

theorem percentage_range:
  "(v \<noteq> NaN \<longrightarrow>
      ((\<exists>p. percentage v = Ok p) = (\<exists>x. v = Finite x \<and> 0 \<le> x \<and> x \<le> 100))) \<and>
   (v \<noteq> NaN \<longrightarrow> \<not> (\<exists>x. v = Finite x \<and> 0 \<le> x \<and> x \<le> 100) \<longrightarrow>
      percentage v = Err (validationError ''percentage''
                            ''Percentage must be between 0 and 100'' ''INVALID_PERCENTAGE'')) \<and>
   (\<forall>p. v \<noteq> NaN \<longrightarrow> percentage v = Ok p \<longrightarrow>
      p = v \<and> (\<exists>x. p = Finite x \<and> 0 \<le> x \<and> x \<le> 100) \<and> percentage p = Ok p)"
  by (cases v) (auto simp: percentage_def js_gt_def)

text \<open>
  The bounds 0 and 100 are accepted; 101, -1 and infinity are refused.
\<close>

theorem percentage_range_witness:
  "percentage (Finite 0) = Ok (Finite 0) \<and>
   percentage (Finite 100) = Ok (Finite 100) \<and>
   percentage (Finite 101) =
     Err (validationError ''percentage'' ''Percentage must be between 0 and 100''
            ''INVALID_PERCENTAGE'') \<and>
   percentage (Finite (- 1)) =
     Err (validationError ''percentage'' ''Percentage must be between 0 and 100''
            ''INVALID_PERCENTAGE'') \<and>
   percentage PosInf =
     Err (validationError ''percentage'' ''Percentage must be between 0 and 100''
            ''INVALID_PERCENTAGE'')"
proof -
  have "\<exists>p. percentage (Finite 0) = Ok p"
    using percentage_range [of "Finite 0"] by simp
  then have "percentage (Finite 0) = Ok (Finite 0)"
    using percentage_range [of "Finite 0"] by auto
  moreover have "\<exists>p. percentage (Finite 100) = Ok p"
    using percentage_range [of "Finite 100"] by simp
  then have "percentage (Finite 100) = Ok (Finite 100)"
    using percentage_range [of "Finite 100"] by auto
  moreover have "percentage (Finite 101) =
     Err (validationError ''percentage'' ''Percentage must be between 0 and 100''
            ''INVALID_PERCENTAGE'')"
    using percentage_range [of "Finite 101"] by simp
  moreover have "percentage (Finite (- 1)) =
     Err (validationError ''percentage'' ''Percentage must be between 0 and 100''
            ''INVALID_PERCENTAGE'')"
    using percentage_range [of "Finite (- 1)"] by simp
  moreover have "percentage PosInf =
     Err (validationError ''percentage'' ''Percentage must be between 0 and 100''
            ''INVALID_PERCENTAGE'')"
    using percentage_range [of PosInf] by simp
  ultimately show ?thesis by simp
qed

text \<open>
  The claim as it stands says that a constructed percentage wraps an integer: 50.5 is
  accepted and wrapped as it is.
\<close>

theorem percentage_integer_counterexample:
  "percentage (Finite (101 / 2)) = Ok (Finite (101 / 2)) \<and> (101 / 2 :: real) \<notin> \<int>"
  by (simp add: percentage_def js_gt_def)

text \<open>
  NaN passes both comparisons of the guard.
\<close>

lemma percentage_NaN: "percentage NaN = Ok NaN"
  by (simp add: percentage_def js_gt_def)

section \<open>Evidence factory\<close>

lemma evidenceId_cases:
  "evidenceId s = (if list_all isWhiteSpace s
      then Err (validationError ''id'' ''EvidenceId cannot be empty'' ''EMPTY_ID'') else Ok s)"
  by (simp add: evidenceId_def createId_cases)

lemma expiration_check:
  "(case x of None \<Rightarrow> False | Some d \<Rightarrow> date_le d (newDate now)) =
     (\<exists>t. x = Some (DateAt t) \<and> t \<le> now)"
  by (cases x) (simp_all add: date_le_newDate_iff)

lemma createEvidence_cases:
  assumes A: "A = list_all isWhiteSpace (CreateEvidenceInput.id inp)"
    and B: "B = (\<exists>t. CreateEvidenceInput.expiresAt inp = Some (DateAt t) \<and> t \<le> now1)"
    and C: "C = (\<exists>t. CreateEvidenceInput.collectedAt inp = DateAt t \<and> now2 < t)"
  shows "createEvidence now1 now2 inp =
     (if A \<or> B \<or> C
      then Err ((if A then [validationError ''id'' ''EvidenceId cannot be empty'' ''EMPTY_ID'']
                 else []) @
                (if B then [validationError ''expiresAt''
                              ''Expiration date must be in the future'' ''INVALID_EXPIRATION'']
                 else []) @
                (if C then [validationError ''collectedAt''
                              ''Collection date cannot be in the future''
                              ''INVALID_COLLECTION_DATE'']
                 else []))
      else Ok \<lparr>Evidence.id = CreateEvidenceInput.id inp,
               controlId' = CreateEvidenceInput.controlId' inp,
               evidenceType = CreateEvidenceInput.evidenceType inp,
               collectedAt = CreateEvidenceInput.collectedAt inp,
               expiresAt = CreateEvidenceInput.expiresAt inp,
               description = CreateEvidenceInput.description inp\<rparr>)"
proof -
  have idr: "evidenceId (CreateEvidenceInput.id inp) =
      (if A then Err (validationError ''id'' ''EvidenceId cannot be empty'' ''EMPTY_ID'')
       else Ok (CreateEvidenceInput.id inp))"
    by (simp add: A evidenceId_cases)
  have exp: "(case CreateEvidenceInput.expiresAt inp of None \<Rightarrow> False
              | Some d \<Rightarrow> date_le d (newDate now1)) = B"
    by (simp add: B expiration_check)
  have col: "date_gt (CreateEvidenceInput.collectedAt inp) (newDate now2) = C"
    by (simp add: C date_gt_newDate_iff)
  show ?thesis
    unfolding createEvidence_def idr exp col
    by (cases A; cases B; cases C) (simp_all add: Let_def)
qed

text \<open>
  C9. \<open>createEvidence\<close> returns an error exactly when at least one of its three checks
  fails: the identifier is empty after trimming, the expiry is present and not after the
  clock reading, or the collection date is after the clock reading. All three checks run, and
  the error list holds one error for each failing check, in the order of the checks, so it is
  never empty. A success carries the input's fields. An expiry equal to the clock reading
  fails; a collection date equal to the clock reading passes.
\<close>

theorem createEvidence_collects_all_errors:
  "((\<exists>errs. createEvidence now1 now2 inp = Err errs) =
      (list_all isWhiteSpace (CreateEvidenceInput.id inp) \<or>
       (\<exists>t. CreateEvidenceInput.expiresAt inp = Some (DateAt t) \<and> t \<le> now1) \<or>
       (\<exists>t. CreateEvidenceInput.collectedAt inp = DateAt t \<and> now2 < t))) \<and>
   (\<forall>errs. createEvidence now1 now2 inp = Err errs \<longrightarrow>
      errs \<noteq> [] \<and>
      errs =
        (if list_all isWhiteSpace (CreateEvidenceInput.id inp)
         then [validationError ''id'' ''EvidenceId cannot be empty'' ''EMPTY_ID''] else []) @
        (if \<exists>t. CreateEvidenceInput.expiresAt inp = Some (DateAt t) \<and> t \<le> now1
         then [validationError ''expiresAt'' ''Expiration date must be in the future''
                 ''INVALID_EXPIRATION''] else []) @
        (if \<exists>t. CreateEvidenceInput.collectedAt inp = DateAt t \<and> now2 < t
         then [validationError ''collectedAt'' ''Collection date cannot be in the future''
                 ''INVALID_COLLECTION_DATE''] else [])) \<and>
   (\<forall>ev. createEvidence now1 now2 inp = Ok ev \<longrightarrow>
      ev = \<lparr>Evidence.id = CreateEvidenceInput.id inp,
            controlId' = CreateEvidenceInput.controlId' inp,
            evidenceType = CreateEvidenceInput.evidenceType inp,
            collectedAt = CreateEvidenceInput.collectedAt inp,
            expiresAt = CreateEvidenceInput.expiresAt inp,
            description = CreateEvidenceInput.description inp\<rparr>) \<and>
   (CreateEvidenceInput.expiresAt inp = Some (DateAt now1) \<longrightarrow>
      (\<exists>errs. createEvidence now1 now2 inp = Err errs \<and>
         validationError ''expiresAt'' ''Expiration date must be in the future''
           ''INVALID_EXPIRATION'' \<in> set errs)) \<and>
   (CreateEvidenceInput.collectedAt inp = DateAt now2 \<longrightarrow>
    \<not> list_all isWhiteSpace (CreateEvidenceInput.id inp) \<longrightarrow>
    \<not> (\<exists>t. CreateEvidenceInput.expiresAt inp = Some (DateAt t) \<and> t \<le> now1) \<longrightarrow>
      (\<exists>ev. createEvidence now1 now2 inp = Ok ev))"
proof -
  define A where "A = list_all isWhiteSpace (CreateEvidenceInput.id inp)"
  define B where "B = (\<exists>t. CreateEvidenceInput.expiresAt inp = Some (DateAt t) \<and> t \<le> now1)"
  define C where "C = (\<exists>t. CreateEvidenceInput.collectedAt inp = DateAt t \<and> now2 < t)"
  note eq = createEvidence_cases [OF A_def B_def C_def]
  have b1: "CreateEvidenceInput.expiresAt inp = Some (DateAt now1) \<Longrightarrow> B"
    by (simp add: B_def)
  have b2: "CreateEvidenceInput.collectedAt inp = DateAt now2 \<Longrightarrow> \<not> C"
    by (simp add: C_def)
  have "((\<exists>errs. createEvidence now1 now2 inp = Err errs) = (A \<or> B \<or> C)) \<and>
   (\<forall>errs. createEvidence now1 now2 inp = Err errs \<longrightarrow>
      errs \<noteq> [] \<and>
      errs =
        (if A then [validationError ''id'' ''EvidenceId cannot be empty'' ''EMPTY_ID''] else []) @
        (if B then [validationError ''expiresAt'' ''Expiration date must be in the future''
                 ''INVALID_EXPIRATION''] else []) @
        (if C then [validationError ''collectedAt'' ''Collection date cannot be in the future''
                 ''INVALID_COLLECTION_DATE''] else [])) \<and>
   (\<forall>ev. createEvidence now1 now2 inp = Ok ev \<longrightarrow>
      ev = \<lparr>Evidence.id = CreateEvidenceInput.id inp,
            controlId' = CreateEvidenceInput.controlId' inp,
            evidenceType = CreateEvidenceInput.evidenceType inp,
            collectedAt = CreateEvidenceInput.collectedAt inp,
            expiresAt = CreateEvidenceInput.expiresAt inp,
            description = CreateEvidenceInput.description inp\<rparr>) \<and>
   (CreateEvidenceInput.expiresAt inp = Some (DateAt now1) \<longrightarrow>
      (\<exists>errs. createEvidence now1 now2 inp = Err errs \<and>
         validationError ''expiresAt'' ''Expiration date must be in the future''
           ''INVALID_EXPIRATION'' \<in> set errs)) \<and>
   (CreateEvidenceInput.collectedAt inp = DateAt now2 \<longrightarrow> \<not> A \<longrightarrow> \<not> B \<longrightarrow>
      (\<exists>ev. createEvidence now1 now2 inp = Ok ev))"
    unfolding eq using b1 b2
    by (cases A; cases B; cases C) auto
  then show ?thesis unfolding A_def B_def C_def .
qed

text \<open>
  At clock reading 1000: an expiry of 1000 alone is refused; without expiry and collected
  at 1000 the evidence is built; a blank identifier, a past expiry and a future collection
  date give three errors.
\<close>

theorem createEvidence_collects_all_errors_witness:
  "(let inp = \<lparr>CreateEvidenceInput.id = utf16 ''E-1'', controlId' = utf16 ''CTL-1'',
               evidenceType = Document (utf16 ''https://files.example/policy.pdf'') PDF,
               collectedAt = DateAt 1000, expiresAt = Some (DateAt 1000),
               description = []\<rparr>
    in createEvidence 1000 1000 inp =
         Err [validationError ''expiresAt'' ''Expiration date must be in the future''
                ''INVALID_EXPIRATION''] \<and>
       createEvidence 1000 1000 (inp\<lparr>CreateEvidenceInput.expiresAt := None\<rparr>) =
         Ok \<lparr>Evidence.id = utf16 ''E-1'', controlId' = utf16 ''CTL-1'',
             evidenceType = Document (utf16 ''https://files.example/policy.pdf'') PDF,
             collectedAt = DateAt 1000, expiresAt = None, description = []\<rparr> \<and>
       createEvidence 1000 1000
         (inp\<lparr>CreateEvidenceInput.id := utf16 ''  '',
               CreateEvidenceInput.collectedAt := DateAt 1001,
               CreateEvidenceInput.expiresAt := Some (DateAt 999)\<rparr>) =
         Err [validationError ''id'' ''EvidenceId cannot be empty'' ''EMPTY_ID'',
              validationError ''expiresAt'' ''Expiration date must be in the future''
                ''INVALID_EXPIRATION'',
              validationError ''collectedAt'' ''Collection date cannot be in the future''
                ''INVALID_COLLECTION_DATE''])"
proof -
  let ?i = "\<lparr>CreateEvidenceInput.id = utf16 ''E-1'', controlId' = utf16 ''CTL-1'',
               evidenceType = Document (utf16 ''https://files.example/policy.pdf'') PDF,
               collectedAt = DateAt 1000, expiresAt = Some (DateAt 1000),
               description = []\<rparr>"
  let ?j = "?i\<lparr>CreateEvidenceInput.expiresAt := None\<rparr>"
  let ?k = "?i\<lparr>CreateEvidenceInput.id := utf16 ''  '',
               CreateEvidenceInput.collectedAt := DateAt 1001,
               CreateEvidenceInput.expiresAt := Some (DateAt 999)\<rparr>"
  have ws: "\<not> list_all isWhiteSpace (utf16 ''E-1'')" "list_all isWhiteSpace (utf16 ''  '')"
    by (simp_all add: utf16_def isWhiteSpace_def)
  note th_i = createEvidence_collects_all_errors [of 1000 1000 ?i]
  note th_j = createEvidence_collects_all_errors [of 1000 1000 ?j]
  note th_k = createEvidence_collects_all_errors [of 1000 1000 ?k]
  have "\<exists>errs. createEvidence 1000 1000 ?i = Err errs"
    using th_i by simp
  then have r1: "createEvidence 1000 1000 ?i =
         Err [validationError ''expiresAt'' ''Expiration date must be in the future''
                ''INVALID_EXPIRATION'']"
    using th_i ws by auto
  have "\<not> (\<exists>errs. createEvidence 1000 1000 ?j = Err errs)"
    using th_j ws by simp
  then obtain ev where "createEvidence 1000 1000 ?j = Ok ev"
    by (cases "createEvidence 1000 1000 ?j") auto
  then have r2: "createEvidence 1000 1000 ?j =
         Ok \<lparr>Evidence.id = utf16 ''E-1'', controlId' = utf16 ''CTL-1'',
             evidenceType = Document (utf16 ''https://files.example/policy.pdf'') PDF,
             collectedAt = DateAt 1000, expiresAt = None, description = []\<rparr>"
    using th_j by simp
  have "\<exists>errs. createEvidence 1000 1000 ?k = Err errs"
    using th_k ws by simp
  then have r3: "createEvidence 1000 1000 ?k =
         Err [validationError ''id'' ''EvidenceId cannot be empty'' ''EMPTY_ID'',
              validationError ''expiresAt'' ''Expiration date must be in the future''
                ''INVALID_EXPIRATION'',
              validationError ''collectedAt'' ''Collection date cannot be in the future''
                ''INVALID_COLLECTION_DATE'']"
    using th_k ws by auto
  show ?thesis using r1 r2 r3 by (simp add: Let_def)
qed

section \<open>Residual score\<close>

text \<open>
  C10. A risk built by \<open>createRisk\<close> has the score of the input's likelihood and impact
  as its inherent score, and its residual score equals the inherent one.
  \<open>updateResidualScore\<close> returns a risk, never an error: the residual score becomes the
  score of the given levels, and the inherent score and every other field stay as they were.
\<close>

theorem residual_score_frame:
  "(\<forall>r. createRisk now inp = Ok r \<longrightarrow>
      Risk.inherentScore r =
        calculateRiskScore (CreateRiskInput.likelihood inp) (CreateRiskInput.impact inp) \<and>
      Risk.residualScore r = Risk.inherentScore r) \<and>
   updateResidualScore r l i = r\<lparr>residualScore := calculateRiskScore l i\<rparr> \<and>
   Risk.residualScore (updateResidualScore r l i) = calculateRiskScore l i \<and>
   Risk.inherentScore (updateResidualScore r l i) = Risk.inherentScore r \<and>
   Risk.id (updateResidualScore r l i) = Risk.id r \<and>
   Risk.title (updateResidualScore r l i) = Risk.title r \<and>
   Risk.description (updateResidualScore r l i) = Risk.description r \<and>
   Risk.category (updateResidualScore r l i) = Risk.category r \<and>
   Risk.status (updateResidualScore r l i) = Risk.status r \<and>
   Risk.ownerId (updateResidualScore r l i) = Risk.ownerId r"
  by (auto simp: createRisk_def updateResidualScore_def Let_def
           split: Result.splits if_splits)

text \<open>
  A risk built at clock reading 1000, then given a lower residual score.
\<close>

theorem residual_score_frame_witness:
  "(let inp = \<lparr>CreateRiskInput.id = utf16 ''R-1'', title = utf16 ''Vendor outage'',
               description = [], category = Operational, likelihood = High,
               impact = Critical, ownerId = utf16 ''U-1''\<rparr>;
        r = \<lparr>Risk.id = utf16 ''R-1'', title = utf16 ''Vendor outage'', description = [],
             category = Operational, inherentScore = calculateRiskScore High Critical,
             residualScore = calculateRiskScore High Critical,
             status = Identified (DateAt 1000), ownerId = utf16 ''U-1''\<rparr>
    in createRisk 1000 inp = Ok r \<and>
       Risk.residualScore r = Risk.inherentScore r \<and>
       Risk.inherentScore r = calculateRiskScore High Critical \<and>
       Risk.residualScore (updateResidualScore r Low Medium) = calculateRiskScore Low Medium \<and>
       Risk.inherentScore (updateResidualScore r Low Medium) = calculateRiskScore High Critical)"
proof -
  let ?inp = "\<lparr>CreateRiskInput.id = utf16 ''R-1'', title = utf16 ''Vendor outage'',
               description = [], category = Operational, likelihood = High,
               impact = Critical, ownerId = utf16 ''U-1''\<rparr>"
  let ?r = "\<lparr>Risk.id = utf16 ''R-1'', title = utf16 ''Vendor outage'', description = [],
             category = Operational, inherentScore = calculateRiskScore High Critical,
             residualScore = calculateRiskScore High Critical,
             status = Identified (DateAt 1000), ownerId = utf16 ''U-1''\<rparr>"
  have ws: "\<not> list_all isWhiteSpace (utf16 ''R-1'')"
       "\<not> list_all isWhiteSpace (utf16 ''Vendor outage'')"
    by (simp_all add: utf16_def isWhiteSpace_def)
  have ne: "utf16 ''Vendor outage'' \<noteq> []" by (simp add: utf16_def)
  have c: "createRisk 1000 ?inp = Ok ?r"
    using ws ne trim_empty_iff [of "utf16 ''Vendor outage''"]
    by (simp add: createRisk_def riskId_def createId_cases Let_def newDate_def)
  show ?thesis
    using c residual_score_frame [of 1000 ?inp ?r Low Medium]
    by (simp add: Let_def)
qed

end
